theory Spec2Isabelle
  imports Complex_Main "HOL-Library.Word"
begin

section \<open>Python values\<close>

text \<open>
  A Python \<open>str\<close> is modelled by the \<open>string\<close> of its UTF-8 bytes, so that
  \<open>s.encode("utf-8")\<close> maps each character to its byte and commutes with concatenation.
  A Python \<open>bytes\<close> value is a list of 8-bit words.
\<close>

type_synonym bytes = "8 word list"

definition encode_utf8 :: "string \<Rightarrow> bytes" where
  "encode_utf8 s = map of_char s"

text \<open>
  The values \<open>json.loads\<close> produces. \<open>JNull\<close> is Python's \<open>None\<close>; an object is the
  dict it was parsed into, looked up with \<open>map_of\<close>. A float is represented by the real
  number it denotes: the code only tests floats for truth (non-zero) and never computes
  with them.
\<close>

datatype json =
    JNull
  | JBool bool
  | JInt int
  | JFloat real
  | JStr string
  | JArr "json list"
  | JObj "(string \<times> json) list"

text \<open>Python truthiness: \<open>bool(v)\<close>, as used by \<open>not v\<close>, \<open>if v\<close> and \<open>a or b\<close>.\<close>

fun truthy :: "json \<Rightarrow> bool" where
  "truthy JNull = False"
| "truthy (JBool b) = b"
| "truthy (JInt i) = (i \<noteq> 0)"
| "truthy (JFloat r) = (r \<noteq> 0)"
| "truthy (JStr s) = (s \<noteq> [])"
| "truthy (JArr xs) = (xs \<noteq> [])"
| "truthy (JObj kvs) = (kvs \<noteq> [])"

text \<open>\<open>a or b\<close>: the first operand when it is truthy, the second otherwise.\<close>

definition py_or :: "json \<Rightarrow> json \<Rightarrow> json" where
  "py_or a b = (if truthy a then a else b)"

text \<open>\<open>d.get(k)\<close> on a dict: the value, or \<open>None\<close> when the key is absent.\<close>

definition py_get :: "(string \<times> json) list \<Rightarrow> string \<Rightarrow> json" where
  "py_get kvs k = (case map_of kvs k of None \<Rightarrow> JNull | Some v \<Rightarrow> v)"

text \<open>
  Exceptions. Every constructor is a subclass of Python's \<open>Exception\<close>;
  \<open>asyncio.CancelledError\<close>, which is not, appears only as the \<open>Cancelled\<close> outcome of
  a task below. \<open>OtherError c m\<close> is an exception of class \<open>c\<close> raised by a collaborator.
\<close>

datatype exn =
    ValueError string
  | RuntimeError string
  | NameError string
  | AttributeError string
  | TypeError string
  | OtherError string string

fun str_exn :: "exn \<Rightarrow> string" where
  "str_exn (ValueError m) = m"
| "str_exn (RuntimeError m) = m"
| "str_exn (NameError m) = m"
| "str_exn (AttributeError m) = m"
| "str_exn (TypeError m) = m"
| "str_exn (OtherError c m) = m"

fun type_name :: "json \<Rightarrow> string" where
  "type_name JNull = ''NoneType''"
| "type_name (JBool b) = ''bool''"
| "type_name (JInt i) = ''int''"
| "type_name (JFloat r) = ''float''"
| "type_name (JStr s) = ''str''"
| "type_name (JArr xs) = ''list''"
| "type_name (JObj kvs) = ''dict''"

text \<open>What \<open>v.get(...)\<close> raises when \<open>v\<close> is not a dict.\<close>

definition no_get :: "json \<Rightarrow> exn" where
  "no_get v = AttributeError
     ([CHR 0x27] @ type_name v @ [CHR 0x27] @ '' object has no attribute 'get'' @ [CHR 0x27])"

subsection \<open>String helpers of the standard library\<close>

text \<open>\<open>sep.join(xs)\<close>.\<close>

fun py_join :: "string \<Rightarrow> string list \<Rightarrow> string" where
  "py_join sep [] = []"
| "py_join sep [x] = x"
| "py_join sep (x # y # ys) = x @ sep @ py_join sep (y # ys)"

text \<open>\<open>str(n)\<close> for an integer: its decimal digits, with a minus sign when negative.\<close>

definition digit_char :: "nat \<Rightarrow> char" where
  "digit_char d = ''0123456789'' ! d"

fun digits :: "nat \<Rightarrow> string" where
  "digits n = (if n < 10 then [digit_char n] else digits (n div 10) @ [digit_char (n mod 10)])"

declare digits.simps [simp del]

definition str_int :: "int \<Rightarrow> string" where
  "str_int i = (if i < 0 then CHR ''-'' # digits (nat (- i)) else digits (nat i))"

text \<open>\<open>digest.hex()\<close>: two lower-case hexadecimal digits per byte.\<close>

definition hex_char :: "nat \<Rightarrow> char" where
  "hex_char d = ''0123456789abcdef'' ! d"

definition hex :: "bytes \<Rightarrow> string" where
  "hex bs = concat (map (\<lambda>b. [hex_char (unat b div 16), hex_char (unat b mod 16)]) bs)"

text \<open>
  \<open>s.strip()\<close>: leading and trailing whitespace removed. The whitespace characters are
  the ASCII ones Python's \<open>str.isspace\<close> accepts.
\<close>

definition is_space :: "char \<Rightarrow> bool" where
  "is_space c = (c \<in> set [CHR '' '', CHR 0x09, CHR 0x0A, CHR 0x0B, CHR 0x0C, CHR 0x0D,
                            CHR 0x1C, CHR 0x1D, CHR 0x1E, CHR 0x1F])"

definition strip :: "string \<Rightarrow> string" where
  "strip s = rev (dropWhile is_space (rev (dropWhile is_space s)))"

text \<open>\<open>os.getenv(name, default)\<close> over the process environment.\<close>

definition getenv_default :: "(string \<Rightarrow> string option) \<Rightarrow> string \<Rightarrow> string \<Rightarrow> string" where
  "getenv_default environ name d = (case environ name of None \<Rightarrow> d | Some v \<Rightarrow> v)"

section \<open>asr.py: the signed request\<close>

text \<open>
  The functions of the standard library that \<open>asr.py\<close> calls are parameters of the model:
  \<^item> \<open>sha256_digest b\<close> is \<open>hashlib.sha256(b).digest()\<close>;
  \<^item> \<open>hmac_digest k m\<close> is \<open>hmac.new(k, m, hashlib.sha256).digest()\<close>;
  \<^item> \<open>utc_date t\<close> is \<open>datetime.utcfromtimestamp(t).strftime("%Y-%m-%d")\<close>;
  \<^item> \<open>b64encode b\<close> is \<open>base64.b64encode(b).decode("utf-8")\<close>;
  \<^item> \<open>json_dumps v\<close> is \<open>json.dumps(v)\<close>.
  \<open>hashlib.sha256(b).hexdigest()\<close> is then \<open>hex (sha256_digest b)\<close>.
\<close>

record pylib =
  sha256_digest :: "bytes \<Rightarrow> bytes"
  hmac_digest :: "bytes \<Rightarrow> bytes \<Rightarrow> bytes"
  utc_date :: "int \<Rightarrow> string"
  b64encode :: "bytes \<Rightarrow> string"
  json_dumps :: "json \<Rightarrow> string"

text \<open>\<open>_hmac_sha256(key, msg)\<close>.\<close>

definition hmac_sha256 :: "pylib \<Rightarrow> bytes \<Rightarrow> string \<Rightarrow> bytes" where
  "hmac_sha256 lib key msg = hmac_digest lib key (encode_utf8 msg)"

text \<open>
  \<open>_build_tc3_headers\<close>, with each local variable of the function as a definition of its
  own: \<open>canonical_request\<close>, \<open>credential_scope\<close>, \<open>string_to_sign\<close>, \<open>secret_signing\<close>
  (through \<open>secret_date\<close> and \<open>secret_service\<close>), \<open>signature\<close> and \<open>authorization\<close>.
\<close>

definition canonical_request :: "pylib \<Rightarrow> bytes \<Rightarrow> string" where
  "canonical_request lib body =
     (let payload_hash = hex (sha256_digest lib body)
      in py_join ''\<newline>''
           [''POST'',
            ''/'',
            '''',
            ''content-type:application/json; charset=utf-8'',
            ''host:asr.tencentcloudapi.com'',
            '''',
            ''content-type;host'',
            payload_hash])"

definition credential_scope :: "pylib \<Rightarrow> int \<Rightarrow> string" where
  "credential_scope lib timestamp = utc_date lib timestamp @ ''/asr/tc3_request''"

definition string_to_sign :: "pylib \<Rightarrow> bytes \<Rightarrow> int \<Rightarrow> string" where
  "string_to_sign lib body timestamp =
     py_join ''\<newline>''
       [''TC3-HMAC-SHA256'',
        str_int timestamp,
        credential_scope lib timestamp,
        hex (sha256_digest lib (encode_utf8 (canonical_request lib body)))]"

definition secret_signing :: "pylib \<Rightarrow> int \<Rightarrow> string \<Rightarrow> bytes" where
  "secret_signing lib timestamp secret_key =
     (let secret_date = hmac_sha256 lib (encode_utf8 (''TC3'' @ secret_key)) (utc_date lib timestamp);
          secret_service = hmac_sha256 lib secret_date ''asr''
      in hmac_sha256 lib secret_service ''tc3_request'')"

definition signature :: "pylib \<Rightarrow> bytes \<Rightarrow> int \<Rightarrow> string \<Rightarrow> string" where
  "signature lib body timestamp secret_key =
     hex (hmac_digest lib (secret_signing lib timestamp secret_key)
            (encode_utf8 (string_to_sign lib body timestamp)))"

definition authorization :: "pylib \<Rightarrow> bytes \<Rightarrow> int \<Rightarrow> string \<Rightarrow> string \<Rightarrow> string" where
  "authorization lib body timestamp secret_id secret_key =
     ''TC3-HMAC-SHA256 Credential='' @ secret_id @ ''/'' @ credential_scope lib timestamp @ '', ''
     @ ''SignedHeaders=content-type;host, Signature='' @ signature lib body timestamp secret_key"

text \<open>The headers dict, in insertion order; \<open>if region:\<close> is false for \<open>None\<close> and for \<open>""\<close>.\<close>

definition build_tc3_headers ::
  "pylib \<Rightarrow> bytes \<Rightarrow> int \<Rightarrow> string \<Rightarrow> string \<Rightarrow> string option \<Rightarrow> (string \<times> string) list" where
  "build_tc3_headers lib body timestamp secret_id secret_key region =
     (let headers =
            [(''Authorization'', authorization lib body timestamp secret_id secret_key),
             (''Content-Type'', ''application/json; charset=utf-8''),
             (''Host'', ''asr.tencentcloudapi.com''),
             (''X-TC-Action'', ''SentenceRecognition''),
             (''X-TC-Version'', ''2019-06-14''),
             (''X-TC-Timestamp'', str_int timestamp),
             (''X-TC-RequestClient'', ''maid'')]
      in case region of
           None \<Rightarrow> headers
         | Some r \<Rightarrow> if r \<noteq> [] then headers @ [(''X-TC-Region'', r)] else headers)"

section \<open>asr.py: the speech-recognition call\<close>

text \<open>
  What \<open>sentence_recognize\<close> reads from the world: the process environment, the clock
  (\<open>int(time.time())\<close>) and the HTTP endpoint. \<open>http_post url body headers\<close> stands for
  \<open>client.post(url, content=body, headers=headers)\<close> followed by \<open>raise_for_status()\<close>
  and \<open>resp.json()\<close>: \<open>Inl\<close> is whatever these raise, \<open>Inr\<close> the decoded answer.
\<close>

record asr_env =
  environ :: "string \<Rightarrow> string option"
  clock :: int
  http_post :: "string \<Rightarrow> bytes \<Rightarrow> (string \<times> string) list \<Rightarrow> exn + json"






section \<open>rpc.py: the dispatcher\<close>

subsection \<open>Collaborators\<close>

text \<open>
  \<open>client.py\<close>, \<open>messages.py\<close> and \<open>watch.py\<close> are not part of the sources read here, so what
  \<open>rpc.py\<close> imports from them is a parameter of the model: the constructor of
  \<open>NapcatRelayClient\<close> (\<open>client_init url timeout\<close> is the exception it raises, if any), the
  three awaited send operations (\<open>Inl\<close> the exception raised, \<open>Inr\<close> the relay's answer),
  \<open>DEFAULT_IGNORE_PREFIXES\<close> and \<open>_event_to_receive_params\<close>. \<open>os_environ\<close> is the process
  environment and \<open>str_of\<close> the builtin \<open>str\<close>.
\<close>

record client =
  c_url :: json
  c_timeout :: json

datatype CommandType = SEND_GROUP_FORWARD_MSG

record Command =
  c_type :: CommandType
  c_payload :: json

record rpc_env =
  os_environ :: "string \<Rightarrow> string option"
  str_of :: "json \<Rightarrow> string"
  client_init :: "json \<Rightarrow> json \<Rightarrow> exn option"
  send_command :: "client \<Rightarrow> Command \<Rightarrow> exn + json"
  send_group_message :: "client \<Rightarrow> json \<Rightarrow> json \<Rightarrow> exn + json"
  send_private_message :: "client \<Rightarrow> json \<Rightarrow> json \<Rightarrow> exn + json"
  DEFAULT_IGNORE_PREFIXES :: json
  event_to_receive_params :: "json \<Rightarrow> json"

text \<open>\<open>os.getenv(name)\<close>: the value, or \<open>None\<close>.\<close>

definition os_getenv :: "rpc_env \<Rightarrow> string \<Rightarrow> json" where
  "os_getenv env name = (case os_environ env name of None \<Rightarrow> JNull | Some v \<Rightarrow> JStr v)"

text \<open>\<open>_asr_enabled()\<close>.\<close>

definition asr_enabled :: "rpc_env \<Rightarrow> bool" where
  "asr_enabled env =
     (strip (getenv_default (os_environ env) ''TENCENT_SECRET_ID'' []) \<noteq> []
      \<and> strip (getenv_default (os_environ env) ''TENCENT_SECRET_KEY'' []) \<noteq> [])"

subsection \<open>The background task\<close>

text \<open>
  Modelled from the spec: \<open>watch_forever\<close> of \<open>watch.py\<close>, which is not among the sources.
  The task that \<open>asyncio.create_task(watch_forever(...))\<close> returns is \<open>Running\<close> from its
  creation. It iterates the gateway's event stream indefinitely; a fault that terminates
  the connection ends it (\<open>Failed\<close>, or \<open>Finished\<close> when the coroutine returns), and it
  observes a cancellation at its next suspension point (\<open>Cancelled\<close>). Awaiting a task
  follows asyncio: \<open>await task\<close> raises \<open>CancelledError\<close> for a cancelled task, re-raises the
  exception of a failed one and returns for a finished one.
\<close>

datatype task_status = Running | Finished | Failed exn | Cancelled

record task =
  t_url :: json
  t_from_group :: json
  t_from_user :: json
  t_ignore_prefixes :: json
  t_asr_enabled :: bool
  t_status :: task_status

subsection \<open>The server\<close>

text \<open>
  \<open>RpcServer\<close>: \<open>watch_task\<close> is the field \<open>_watch_task\<close> and \<open>written\<close> the objects written
  to standard output by \<open>_write_json\<close>, one per line, oldest first. \<open>released\<close> is not a
  field of the class: it records the tasks the server created and no longer references,
  with the status they had when \<open>_stop_watch\<close> was done with them, so that the tasks still
  running can be counted.
\<close>

record rpc_state =
  watch_task :: "task option"
  released :: "task list"
  written :: "json list"

definition initial :: rpc_state where
  "initial = \<lparr>watch_task = None, released = [], written = []\<rparr>"

definition write_json :: "json \<Rightarrow> rpc_state \<Rightarrow> rpc_state" where
  "write_json obj s = s\<lparr>written := written s @ [obj]\<rparr>"

definition write_result :: "json \<Rightarrow> json \<Rightarrow> rpc_state \<Rightarrow> rpc_state" where
  "write_result req_id result s =
     (if req_id = JNull then s
      else write_json (JObj [(''jsonrpc'', JStr ''2.0''), (''id'', req_id), (''result'', result)]) s)"

definition write_error :: "json \<Rightarrow> int \<Rightarrow> string \<Rightarrow> rpc_state \<Rightarrow> rpc_state" where
  "write_error req_id code message s =
     (if req_id = JNull then s
      else let error_obj = JObj [(''code'', JInt code), (''message'', JStr message)]
           in write_json (JObj [(''jsonrpc'', JStr ''2.0''), (''id'', req_id), (''error'', error_obj)]) s)"

definition emit_notification :: "rpc_env \<Rightarrow> json \<Rightarrow> rpc_state \<Rightarrow> rpc_state" where
  "emit_notification env event s =
     write_json (JObj [(''jsonrpc'', JStr ''2.0''), (''method'', JStr ''message.receive''),
                       (''params'', event_to_receive_params env event)]) s"

text \<open>
  \<open>_stop_watch\<close>. A handler returns the exception that leaves it, if any, with the state
  it leaves behind. The reference is cleared before the task is cancelled and awaited;
  \<open>except asyncio.CancelledError: pass\<close> swallows the cancellation and nothing else.
\<close>

definition stop_watch :: "rpc_state \<Rightarrow> exn option \<times> rpc_state" where
  "stop_watch s =
     (case watch_task s of
        None \<Rightarrow> (None, s)
      | Some task \<Rightarrow>
          (let s1 = s\<lparr>watch_task := None\<rparr>
           in case t_status task of
                Running \<Rightarrow> (None, s1\<lparr>released := released s1 @ [task\<lparr>t_status := Cancelled\<rparr>]\<rparr>)
              | Cancelled \<Rightarrow> (None, s1\<lparr>released := released s1 @ [task]\<rparr>)
              | Finished \<Rightarrow> (None, s1\<lparr>released := released s1 @ [task]\<rparr>)
              | Failed exc \<Rightarrow> (Some exc, s1\<lparr>released := released s1 @ [task]\<rparr>)))"

definition handle_initialize :: "json \<Rightarrow> rpc_state \<Rightarrow> rpc_state" where
  "handle_initialize req_id s =
     (let result = JObj [(''capabilities'',
                          JObj [(''streaming'', JBool True), (''attachments'', JBool True)])]
      in write_result req_id result s)"

text \<open>
  The body of the \<open>try\<close> of \<open>_handle_send\<close> (lines 137 to 155): the exception it raises or
  the relay's result.
\<close>

definition send_body ::
  "rpc_env \<Rightarrow> (string \<times> json) list \<Rightarrow> client \<Rightarrow> json \<Rightarrow> json \<Rightarrow> json \<Rightarrow> exn + json" where
  "send_body env params cl channel group_id user_id =
     (if channel = JStr ''group_forward'' then
        (let messages = py_or (py_get params ''messages'') (py_get params ''nodes'')
         in if \<not> truthy messages then Inl (ValueError ''messages is required for group_forward'')
            else let payload = JObj [(''group_id'', JStr (str_of env group_id)),
                                     (''messages'', messages)];
                     command = \<lparr>c_type = SEND_GROUP_FORWARD_MSG, c_payload = payload\<rparr>
                 in send_command env cl command)
      else if channel = JStr ''group'' then
        (let message = py_get params ''message''
         in if \<not> truthy message then Inl (ValueError ''message is required for group send'')
            else send_group_message env cl group_id message)
      else if channel = JStr ''private'' then
        (let message = py_get params ''message''
         in if \<not> truthy message then Inl (ValueError ''message is required for private send'')
            else send_private_message env cl user_id message)
      else Inl (ValueError ''Unsupported channel; use group, group_forward, or private''))"

text \<open>
  The channel after lines 124 and 130 to 134: the explicit \<open>channel\<close> (or \<open>type\<close>), else
  inferred from \<open>group_id\<close>, then \<open>user_id\<close>.
\<close>

definition resolve_channel :: "(string \<times> json) list \<Rightarrow> json" where
  "resolve_channel params =
     (let channel = py_or (py_get params ''channel'') (py_get params ''type'')
      in if \<not> truthy channel then
           (if truthy (py_get params ''group_id'') then JStr ''group''
            else if truthy (py_get params ''user_id'') then JStr ''private''
            else channel)
         else channel)"

text \<open>
  \<open>_handle_send\<close>. \<open>params.get\<close> raises when \<open>params\<close> is not a dict; the constructor of the
  client runs before the \<open>try\<close>, so what it raises leaves the handler; what the body of
  the \<open>try\<close> raises is answered with code -32000.
\<close>

definition handle_send :: "rpc_env \<Rightarrow> json \<Rightarrow> json \<Rightarrow> rpc_state \<Rightarrow> exn option \<times> rpc_state" where
  "handle_send env params req_id s =
     (case params of
        JObj p \<Rightarrow>
          (let group_id = py_get p ''group_id'';
               user_id = py_get p ''user_id'';
               timeout = py_get p ''timeout''
           in case client_init env (py_get p ''napcat_url'') timeout of
                Some exc \<Rightarrow> (Some exc, s)
              | None \<Rightarrow>
                  (let cl = \<lparr>c_url = py_get p ''napcat_url'', c_timeout = timeout\<rparr>;
                       channel = resolve_channel p
                   in case send_body env p cl channel group_id user_id of
                        Inl exc \<Rightarrow> (None, write_error req_id (- 32000) (str_exn exc) s)
                      | Inr result \<Rightarrow> (None, write_result req_id result s)))
      | _ \<Rightarrow> (Some (no_get params), s))"

text \<open>\<open>_handle_message_send\<close>; \<open>text is None\<close> holds for an absent and for a null \<open>text\<close>.\<close>

definition handle_message_send ::
  "rpc_env \<Rightarrow> json \<Rightarrow> json \<Rightarrow> rpc_state \<Rightarrow> exn option \<times> rpc_state" where
  "handle_message_send env params req_id s =
     (case params of
        JObj p \<Rightarrow>
          (let text = py_get p ''text'';
               to = py_or (py_or (py_get p ''to'') (py_get p ''chatId'')) (py_get p ''chat_id'');
               is_group = py_get p ''isGroup''
           in if \<not> truthy to \<or> text = JNull then
                (None, write_error req_id (- 32602) ''to/chatId and text are required'' s)
              else
                (let channel = (if truthy is_group then ''group'' else ''private'');
                     message = JArr [JObj [(''type'', JStr ''text''),
                                           (''data'', JObj [(''text'', text)])]]
                 in handle_send env
                      (JObj [(''channel'', JStr channel),
                             (''group_id'', if truthy is_group then to else JNull),
                             (''user_id'', if truthy is_group then JNull else to),
                             (''message'', message),
                             (''napcat_url'', py_get p ''napcat_url''),
                             (''timeout'', py_get p ''timeout'')])
                      req_id s))
      | _ \<Rightarrow> (Some (no_get params), s))"

text \<open>
  \<open>_handle_subscribe\<close>: the running task is stopped first, then the parameters are read.
\<close>

definition handle_subscribe ::
  "rpc_env \<Rightarrow> json \<Rightarrow> json \<Rightarrow> rpc_state \<Rightarrow> exn option \<times> rpc_state" where
  "handle_subscribe env params req_id s =
     (case stop_watch s of
        (Some exc, s1) \<Rightarrow> (Some exc, s1)
      | (None, s1) \<Rightarrow>
          (case params of
             JObj p \<Rightarrow>
               (let url = py_or (py_get p ''napcat_url'') (os_getenv env ''NAPCAT_URL'')
                in if \<not> truthy url then
                     (None, write_error req_id (- 32000) ''NAPCAT_URL is required'' s1)
                   else
                     (let new_task =
                            \<lparr>t_url = url,
                             t_from_group = py_get p ''from_group'',
                             t_from_user = py_get p ''from_user'',
                             t_ignore_prefixes =
                               py_or (py_get p ''ignore_prefixes'') (DEFAULT_IGNORE_PREFIXES env),
                             t_asr_enabled = asr_enabled env,
                             t_status = Running\<rparr>
                      in (None, write_result req_id (JObj [(''status'', JStr ''subscribed'')])
                                  (s1\<lparr>watch_task := Some new_task\<rparr>))))
           | _ \<Rightarrow> (Some (no_get params), s1)))"

definition handle_unsubscribe :: "json \<Rightarrow> rpc_state \<Rightarrow> exn option \<times> rpc_state" where
  "handle_unsubscribe req_id s =
     (case stop_watch s of
        (Some exc, s1) \<Rightarrow> (Some exc, s1)
      | (None, s1) \<Rightarrow> (None, write_result req_id (JObj [(''status'', JStr ''unsubscribed'')]) s1))"

text \<open>
  \<open>_handle_request\<close>. \<open>request.get\<close> raises when the parsed line is not a dict;
  \<open>request.get("params") or {}\<close> replaces every falsy \<open>params\<close> by the empty dict.
\<close>

definition handle_request :: "rpc_env \<Rightarrow> json \<Rightarrow> rpc_state \<Rightarrow> exn option \<times> rpc_state" where
  "handle_request env request s =
     (case request of
        JObj r \<Rightarrow>
          (let method = py_get r ''method'';
               req_id = py_get r ''id'';
               params = py_or (py_get r ''params'') (JObj [])
           in if method = JStr ''initialize'' then (None, handle_initialize req_id s)
              else if method = JStr ''watch.subscribe'' then handle_subscribe env params req_id s
              else if method = JStr ''watch.unsubscribe'' then handle_unsubscribe req_id s
              else if method = JStr ''message.send'' then handle_message_send env params req_id s
              else if method = JStr ''send'' then handle_send env params req_id s
              else if method = JStr ''chats.list'' then (None, write_result req_id (JArr []) s)
              else (None, write_error req_id (- 32601) ''Method not found'' s))
      | _ \<Rightarrow> (Some (no_get request), s))"

subsection \<open>The serve loop\<close>

text \<open>
  What one \<open>readline\<close> of standard input yields, after \<open>strip\<close> and \<open>json.loads\<close>: a line
  that is empty once stripped, a line that \<open>json.loads\<close> rejects, or the parsed value. The
  end of the list of events is the end of input.

  Between two reads the background task may run: it may emit a notification, return, or
  raise. These are the other events.
\<close>

datatype input_line = Blank | Malformed | Parsed json

datatype event =
    Line input_line
  | TaskEmits json
  | TaskReturns
  | TaskRaises exn

definition task_ends :: "task_status \<Rightarrow> rpc_state \<Rightarrow> rpc_state" where
  "task_ends outcome s =
     (case watch_task s of
        None \<Rightarrow> s
      | Some task \<Rightarrow>
          if t_status task = Running then s\<lparr>watch_task := Some (task\<lparr>t_status := outcome\<rparr>)\<rparr>
          else s)"

definition task_emits :: "rpc_env \<Rightarrow> json \<Rightarrow> rpc_state \<Rightarrow> rpc_state" where
  "task_emits env ev s =
     (case watch_task s of
        None \<Rightarrow> s
      | Some task \<Rightarrow> if t_status task = Running then emit_notification env ev s else s)"

text \<open>
  One iteration of the loop of \<open>serve\<close> on a parsed request (lines 37 to 41): the
  exception that leaves the loop, if any, and the state. The \<open>except\<close> clause evaluates
  \<open>request.get("id")\<close> again, outside any \<open>try\<close>.
\<close>

definition serve_request :: "rpc_env \<Rightarrow> json \<Rightarrow> rpc_state \<Rightarrow> exn option \<times> rpc_state" where
  "serve_request env request s =
     (case handle_request env request s of
        (None, s1) \<Rightarrow> (None, s1)
      | (Some exc, s1) \<Rightarrow>
          (case request of
             JObj r \<Rightarrow> (None, write_error (py_get r ''id'') (- 32000) (str_exn exc) s1)
           | _ \<Rightarrow> (Some (no_get request), s1)))"

fun serve_event :: "rpc_env \<Rightarrow> event \<Rightarrow> rpc_state \<Rightarrow> exn option \<times> rpc_state" where
  "serve_event env (Line Blank) s = (None, s)"
| "serve_event env (Line Malformed) s = (None, s)"
| "serve_event env (Line (Parsed request)) s = serve_request env request s"
| "serve_event env (TaskEmits ev) s = (None, task_emits env ev s)"
| "serve_event env TaskReturns s = (None, task_ends Finished s)"
| "serve_event env (TaskRaises exc) s = (None, task_ends (Failed exc) s)"

text \<open>
  \<open>serve\<close>: \<open>Closed\<close> when the input is exhausted, \<open>Crashed exc\<close> when \<open>exc\<close> leaves the loop
  (\<open>run_rpc_server\<close> catches \<open>KeyboardInterrupt\<close> only).
\<close>

datatype stop = Closed | Crashed exn

fun serve :: "rpc_env \<Rightarrow> event list \<Rightarrow> rpc_state \<Rightarrow> stop \<times> rpc_state" where
  "serve env [] s = (Closed, s)"
| "serve env (e # es) s =
     (case serve_event env e s of
        (None, s1) \<Rightarrow> serve env es s1
      | (Some exc, s1) \<Rightarrow> (Crashed exc, s1))"




text \<open>
  Every task the server no longer references has ended. While this holds, the only task
  that can be running is the one \<open>_watch_task\<close> refers to, also between the moment
  \<open>_stop_watch\<close> clears the reference (line 167) and the moment its \<open>await\<close> returns.
\<close>

definition released_done :: "rpc_state \<Rightarrow> bool" where
  "released_done s = list_all (\<lambda>task. t_status task \<noteq> Running) (released s)"

section \<open>Concrete inputs\<close>

text \<open>
  Stand-ins for the library and the collaborators, used only to evaluate the definitions
  on concrete inputs; the theorems below hold for every library and every environment.
  The HTTP endpoint of \<open>asr_env_of\<close> answers every request with a recognised text, and
  the relay of \<open>rpc_env_of\<close> accepts every command.
\<close>

definition example_str :: "json \<Rightarrow> string" where
  "example_str v = (case v of JStr s \<Rightarrow> s | JInt i \<Rightarrow> str_int i | _ \<Rightarrow> ''?'')"

definition example_lib :: pylib where
  "example_lib =
     \<lparr>sha256_digest = (\<lambda>b. [0xAB, 0x01]),
      hmac_digest = (\<lambda>k m. [0x0F]),
      utc_date = (\<lambda>t. ''1970-01-01''),
      b64encode = (\<lambda>b. ''AQ==''),
      json_dumps = (\<lambda>v. ''{}'')\<rparr>"


definition relay_ok :: json where
  "relay_ok = JObj [(''status'', JStr ''ok'')]"

definition rpc_env_of :: "(string \<times> string) list \<Rightarrow> rpc_env" where
  "rpc_env_of vars =
     \<lparr>os_environ = map_of vars,
      str_of = example_str,
      client_init = (\<lambda>url timeout. None),
      send_command = (\<lambda>cl command. Inr relay_ok),
      send_group_message = (\<lambda>cl group_id message. Inr relay_ok),
      send_private_message = (\<lambda>cl user_id message. Inr relay_ok),
      DEFAULT_IGNORE_PREFIXES = JArr [JStr ''/''],
      event_to_receive_params = (\<lambda>ev. ev)\<rparr>"

text \<open>
  Requests as \<open>json.loads\<close> parses them from a line, and the response objects written
  for a numeric \<open>id\<close>.
\<close>

definition subscribe_request :: "int \<Rightarrow> string option \<Rightarrow> json" where
  "subscribe_request i url =
     JObj [(''jsonrpc'', JStr ''2.0''), (''id'', JInt i), (''method'', JStr ''watch.subscribe''),
           (''params'', JObj (case url of None \<Rightarrow> [] | Some u \<Rightarrow> [(''napcat_url'', JStr u)]))]"

definition unsubscribe_request :: "int \<Rightarrow> json" where
  "unsubscribe_request i =
     JObj [(''jsonrpc'', JStr ''2.0''), (''id'', JInt i), (''method'', JStr ''watch.unsubscribe'')]"

definition forward_empty :: json where
  "forward_empty =
     JObj [(''id'', JInt 1), (''method'', JStr ''send''),
           (''params'', JObj [(''channel'', JStr ''group_forward''), (''group_id'', JStr ''123''),
                              (''messages'', JArr [])])]"

definition result_response :: "int \<Rightarrow> json \<Rightarrow> json" where
  "result_response i v = JObj [(''jsonrpc'', JStr ''2.0''), (''id'', JInt i), (''result'', v)]"

definition error_response :: "int \<Rightarrow> int \<Rightarrow> string \<Rightarrow> json" where
  "error_response i c m =
     JObj [(''jsonrpc'', JStr ''2.0''), (''id'', JInt i),
           (''error'', JObj [(''code'', JInt c), (''message'', JStr m)])]"

text \<open>
  The task a \<open>watch.subscribe\<close> with only \<open>napcat_url\<close> creates under \<open>rpc_env_of []\<close>,
  in the given status.
\<close>

definition example_task :: "string \<Rightarrow> task_status \<Rightarrow> task" where
  "example_task u st =
     \<lparr>t_url = JStr u, t_from_group = JNull, t_from_user = JNull,
      t_ignore_prefixes = JArr [JStr ''/''], t_asr_enabled = False, t_status = st\<rparr>"


section \<open>Properties\<close>

subsection \<open>Helper lemmas\<close>




subsection \<open>The signed request\<close>

text \<open>
  C1. For every body, timestamp, secret id, secret key and optional region,
  \<open>_build_tc3_headers\<close> follows the TC3 scheme: the canonical request is the eight lines
  \<open>POST\<close>, \<open>/\<close>, the empty line, \<open>content-type:application/json; charset=utf-8\<close>,
  \<open>host:asr.tencentcloudapi.com\<close>, the empty line, \<open>content-type;host\<close> and the hexadecimal
  SHA-256 of the body, joined by newlines; the string to sign is the four lines
  \<open>TC3-HMAC-SHA256\<close>, the decimal timestamp, \<open><date>/asr/tc3_request\<close> and the hexadecimal
  SHA-256 of the canonical request; the signing key is the chain of three HMACs starting
  from \<open>"TC3" + secret_key\<close> over the date, \<open>asr\<close> and \<open>tc3_request\<close>; and the
  \<open>Authorization\<close> header is the credential line followed by the hexadecimal HMAC of the
  string to sign under the signing key. The date is the library's UTC date of the
  timestamp.
\<close>

theorem build_tc3_headers_scheme:
  "canonical_request lib body =
      ''POST\<newline>/\<newline>\<newline>content-type:application/json; charset=utf-8\<newline>host:asr.tencentcloudapi.com\<newline>\<newline>content-type;host\<newline>''
      @ hex (sha256_digest lib body)
   \<and> string_to_sign lib body ts =
      ''TC3-HMAC-SHA256\<newline>'' @ str_int ts @ ''\<newline>'' @ utc_date lib ts @ ''/asr/tc3_request\<newline>''
      @ hex (sha256_digest lib (encode_utf8 (canonical_request lib body)))
   \<and> secret_signing lib ts secret_key =
      hmac_digest lib
        (hmac_digest lib
           (hmac_digest lib (encode_utf8 (''TC3'' @ secret_key)) (encode_utf8 (utc_date lib ts)))
           (encode_utf8 ''asr''))
        (encode_utf8 ''tc3_request'')
   \<and> map_of (build_tc3_headers lib body ts secret_id secret_key region) ''Authorization'' =
      Some (''TC3-HMAC-SHA256 Credential='' @ secret_id @ ''/'' @ utc_date lib ts
            @ ''/asr/tc3_request, SignedHeaders=content-type;host, Signature=''
            @ hex (hmac_digest lib (secret_signing lib ts secret_key)
                     (encode_utf8 (string_to_sign lib body ts))))"
proof (intro conjI)
  show "canonical_request lib body =
      ''POST\<newline>/\<newline>\<newline>content-type:application/json; charset=utf-8\<newline>host:asr.tencentcloudapi.com\<newline>\<newline>content-type;host\<newline>''
      @ hex (sha256_digest lib body)"
    by (simp add: canonical_request_def)
  show "string_to_sign lib body ts =
      ''TC3-HMAC-SHA256\<newline>'' @ str_int ts @ ''\<newline>'' @ utc_date lib ts @ ''/asr/tc3_request\<newline>''
      @ hex (sha256_digest lib (encode_utf8 (canonical_request lib body)))"
    by (simp add: string_to_sign_def credential_scope_def)
  show "secret_signing lib ts secret_key =
      hmac_digest lib
        (hmac_digest lib
           (hmac_digest lib (encode_utf8 (''TC3'' @ secret_key)) (encode_utf8 (utc_date lib ts)))
           (encode_utf8 ''asr''))
        (encode_utf8 ''tc3_request'')"
    by (simp add: secret_signing_def hmac_sha256_def)
  show "map_of (build_tc3_headers lib body ts secret_id secret_key region) ''Authorization'' =
      Some (''TC3-HMAC-SHA256 Credential='' @ secret_id @ ''/'' @ utc_date lib ts
            @ ''/asr/tc3_request, SignedHeaders=content-type;host, Signature=''
            @ hex (hmac_digest lib (secret_signing lib ts secret_key)
                     (encode_utf8 (string_to_sign lib body ts))))"
    by (simp add: build_tc3_headers_def authorization_def signature_def credential_scope_def
             Let_def split: option.splits)
qed

text \<open>
  The construction evaluated on the body \<open>{}\<close> at timestamp 1700000000 with the stand-in
  library (date \<open>1970-01-01\<close>, digest bytes \<open>ab 01\<close>, HMAC byte \<open>0f\<close>).
\<close>

theorem build_tc3_headers_scheme_witness:
  "map_of (build_tc3_headers example_lib [0x7B, 0x7D] 1700000000 ''AKID'' ''secret''
             (Some ''ap-guangzhou'')) ''Authorization''
   = Some ''TC3-HMAC-SHA256 Credential=AKID/1970-01-01/asr/tc3_request, SignedHeaders=content-type;host, Signature=0f''
   \<and> string_to_sign example_lib [0x7B, 0x7D] 1700000000
   = ''TC3-HMAC-SHA256\<newline>1700000000\<newline>1970-01-01/asr/tc3_request\<newline>ab01''"
  using build_tc3_headers_scheme [of example_lib "[0x7B, 0x7D]" 1700000000 "''secret''"
          "''AKID''" "Some ''ap-guangzhou''"]
  by (simp add: example_lib_def hex_def hex_char_def str_int_def digits.simps digit_char_def)

subsection \<open>The speech-recognition call\<close>






subsection \<open>The dispatcher\<close>

lemma write_result_null [simp]: "write_result JNull x s = s"
  by (simp add: write_result_def)

lemma write_error_null [simp]: "write_error JNull c m s = s"
  by (simp add: write_error_def)

lemma write_result_fields [simp]:
  "watch_task (write_result i x s) = watch_task s"
  "released (write_result i x s) = released s"
  by (simp_all add: write_result_def write_json_def)

lemma write_error_fields [simp]:
  "watch_task (write_error i c m s) = watch_task s"
  "released (write_error i c m s) = released s"
  by (simp_all add: write_error_def write_json_def Let_def)

lemma stop_watch_written [simp]: "written (snd (stop_watch s)) = written s"
  by (simp add: stop_watch_def Let_def split: option.splits task_status.splits)

lemma stop_watch_handle [simp]: "watch_task (snd (stop_watch s)) = None"
  by (simp add: stop_watch_def Let_def split: option.splits task_status.splits)

lemma handle_send_null: "written (snd (handle_send env params JNull s)) = written s"
  by (simp add: handle_send_def Let_def split: json.splits option.splits sum.splits)

lemma handle_message_send_null:
  "written (snd (handle_message_send env params JNull s)) = written s"
  by (simp add: handle_message_send_def handle_send_null Let_def split: json.splits)

lemma handle_subscribe_null: "written (snd (handle_subscribe env params JNull s)) = written s"
proof (cases "stop_watch s")
  case (Pair e s1)
  then have "written s1 = written s"
    using stop_watch_written [of s] by simp
  with Pair show ?thesis
    by (simp add: handle_subscribe_def Let_def split: option.splits json.splits)
qed

lemma handle_unsubscribe_null: "written (snd (handle_unsubscribe JNull s)) = written s"
proof (cases "stop_watch s")
  case (Pair e s1)
  then have "written s1 = written s"
    using stop_watch_written [of s] by simp
  with Pair show ?thesis
    by (simp add: handle_unsubscribe_def split: option.splits)
qed

lemma handle_request_null:
  "py_get r ''id'' = JNull \<Longrightarrow> written (snd (handle_request env (JObj r) s)) = written s"
  by (simp add: handle_request_def Let_def handle_initialize_def handle_send_null
        handle_message_send_null handle_subscribe_null handle_unsubscribe_null)

text \<open>
  C6. A parsed request object whose \<open>id\<close> is absent or null is handled without
  writing anything to the output, whatever the method and the parameters are and
  whatever the collaborators do: on the success paths, on the error paths (method not
  found, invalid parameters) and when the handler raises. The iteration of the loop ends
  normally.
\<close>

theorem no_id_no_response:
  "py_get r ''id'' = JNull \<Longrightarrow>
     fst (serve_request env (JObj r) s) = None
     \<and> written (snd (serve_request env (JObj r) s)) = written s"
proof -
  assume a: "py_get r ''id'' = JNull"
  obtain e s1 where h: "handle_request env (JObj r) s = (e, s1)"
    by (cases "handle_request env (JObj r) s")
  then have "written s1 = written s"
    using handle_request_null [OF a, of env s] by simp
  with h a show ?thesis
    by (simp add: serve_request_def split: option.splits)
qed

theorem no_id_no_response_witness:
  "py_get [(''method'', JStr ''no.such.method'')] ''id'' = JNull
   \<and> serve_request (rpc_env_of []) (JObj [(''method'', JStr ''no.such.method'')]) initial
       = (None, initial)
   \<and> written (snd (serve_request (rpc_env_of [])
         (JObj [(''method'', JStr ''send''), (''id'', JNull),
                (''params'', JObj [(''channel'', JStr ''group''), (''group_id'', JStr ''123''),
                                   (''message'', JArr [JStr ''hi''])])]) initial)) = []"
  using no_id_no_response [of "[(''method'', JStr ''no.such.method'')]" "rpc_env_of []" initial]
    no_id_no_response [of "[(''method'', JStr ''send''), (''id'', JNull),
                (''params'', JObj [(''channel'', JStr ''group''), (''group_id'', JStr ''123''),
                                   (''message'', JArr [JStr ''hi''])])]" "rpc_env_of []" initial]
  by (simp add: py_get_def initial_def serve_request_def handle_request_def py_or_def Let_def)







subsection \<open>The serve loop\<close>

text \<open>
  C3 does not hold of the code. The line \<open>[]\<close> parses as JSON, to a list. \<open>request.get\<close>
  raises \<open>AttributeError\<close> in \<open>_handle_request\<close>; the \<open>except\<close> clause of \<open>serve\<close> catches
  it and evaluates \<open>request.get("id")\<close> itself, which raises again, outside any \<open>try\<close>. The
  exception leaves \<open>serve\<close>: nothing is written, and the \<open>initialize\<close> request on the next
  line is never read.
\<close>

theorem serve_stops_on_non_object:
  "serve (rpc_env_of [])
     [Line (Parsed (JArr [])),
      Line (Parsed (JObj [(''id'', JInt 1), (''method'', JStr ''initialize'')]))]
     initial
   = (Crashed (AttributeError (CHR 0x27 # ''list' object has no attribute 'get'' @ [CHR 0x27])),
      initial)"
  by (simp add: serve_request_def handle_request_def no_get_def)

text \<open>
  What does hold: when the parsed line is an object, no exception leaves the iteration,
  and an exception that leaves \<open>_handle_request\<close> is answered with the code -32000 and its
  text (nothing is written when the request has no \<open>id\<close>).
\<close>

theorem serve_request_object_fault:
  "fst (serve_request env (JObj r) s) = None
   \<and> (handle_request env (JObj r) s = (Some exc, s1) \<longrightarrow>
        serve_request env (JObj r) s
          = (None, write_error (py_get r ''id'') (- 32000) (str_exn exc) s1))"
  by (simp add: serve_request_def split: prod.splits option.splits)

text \<open>
  A \<open>send\<close> whose \<open>params\<close> is the list \<open>[1]\<close>: \<open>params.get\<close> raises in \<open>_handle_send\<close>.
\<close>

theorem serve_request_object_fault_witness:
  "handle_request (rpc_env_of [])
      (JObj [(''id'', JInt 8), (''method'', JStr ''send''), (''params'', JArr [JInt 1])]) initial
     = (Some (no_get (JArr [JInt 1])), initial)
   \<and> serve_request (rpc_env_of [])
      (JObj [(''id'', JInt 8), (''method'', JStr ''send''), (''params'', JArr [JInt 1])]) initial
     = (None, initial\<lparr>written :=
          [error_response 8 (- 32000)
             (CHR 0x27 # ''list' object has no attribute 'get'' @ [CHR 0x27])]\<rparr>)"
  using serve_request_object_fault
          [of "rpc_env_of []"
            "[(''id'', JInt 8), (''method'', JStr ''send''), (''params'', JArr [JInt 1])]"
            initial "no_get (JArr [JInt 1])" initial]
  by (simp add: handle_request_def handle_send_def py_get_def py_or_def no_get_def
        error_response_def write_error_def write_json_def initial_def Let_def)

lemma serve_request_object: "fst (serve_request env (JObj r) s) = None"
  by (simp add: serve_request_def split: prod.splits option.splits)

text \<open>
  Hence, on an input all of whose parsed lines are objects, \<open>serve\<close> runs to the end of the
  input, whatever the requests are, whatever the collaborators do and however the
  background task behaves in between.
\<close>

theorem serve_object_lines_closed:
  "(\<forall>v. Line (Parsed v) \<in> set es \<longrightarrow> (\<exists>r. v = JObj r)) \<Longrightarrow> fst (serve env es s) = Closed"
proof (induction es arbitrary: s)
  case Nil
  show ?case by simp
next
  case (Cons e es)
  have "fst (serve_event env e s) = None"
  proof (cases e)
    case (Line l)
    show ?thesis
    proof (cases l)
      case (Parsed v)
      with Line Cons.prems obtain r where "v = JObj r" by auto
      with Line Parsed show ?thesis by (simp add: serve_request_object)
    qed (simp_all add: Line)
  qed simp_all
  then obtain s1 where "serve_event env e s = (None, s1)"
    by (cases "serve_event env e s") simp
  with Cons show ?case by simp
qed

theorem serve_object_lines_closed_witness:
  "fst (serve (rpc_env_of [])
          [Line Blank, Line Malformed, Line (Parsed forward_empty),
           TaskRaises (OtherError ''OSError'' ''connection lost''),
           Line (Parsed (unsubscribe_request 2))]
          initial) = Closed"
  using serve_object_lines_closed
          [of "[Line Blank, Line Malformed, Line (Parsed forward_empty),
                TaskRaises (OtherError ''OSError'' ''connection lost''),
                Line (Parsed (unsubscribe_request 2))]"
              "rpc_env_of []" initial]
  by (auto simp add: forward_empty_def unsubscribe_request_def)

subsection \<open>The subscription\<close>

text \<open>
  C7 does not hold of the code in every state. When the background task has ended with an
  exception, \<open>await task\<close> in \<open>_stop_watch\<close> raises that exception again, and
  \<open>except asyncio.CancelledError\<close> does not catch it: \<open>watch.unsubscribe\<close> is answered with
  an error of code -32000 carrying the task's old failure, and not with
  \<open>{status: "unsubscribed"}\<close>.
\<close>

theorem unsubscribe_after_failure:
  "serve (rpc_env_of [])
     [Line (Parsed (subscribe_request 1 (Some ''ws://gateway''))),
      TaskRaises (OtherError ''ConnectionClosedError'' ''no close frame received or sent''),
      Line (Parsed (unsubscribe_request 2))]
     initial
   = (Closed,
      \<lparr>watch_task = None,
       released = [example_task ''ws://gateway''
                     (Failed (OtherError ''ConnectionClosedError''
                                ''no close frame received or sent''))],
       written = [result_response 1 (JObj [(''status'', JStr ''subscribed'')]),
                  error_response 2 (- 32000) ''no close frame received or sent'']\<rparr>)"
  by (simp add: subscribe_request_def unsubscribe_request_def example_task_def
        result_response_def error_response_def serve_request_def handle_request_def
        handle_subscribe_def handle_unsubscribe_def stop_watch_def task_ends_def
        py_get_def py_or_def os_getenv_def rpc_env_of_def asr_enabled_def getenv_default_def
        strip_def initial_def write_result_def write_error_def write_json_def Let_def)

text \<open>
  What \<open>_handle_unsubscribe\<close> does in each state: the reference is empty afterwards in
  every case; with no task, and with a running task (which is cancelled), the answer is
  \<open>{status: "unsubscribed"}\<close>; with a task that has failed, the task's exception leaves the
  handler.
\<close>

theorem unsubscribe_outcomes:
  "watch_task (snd (handle_unsubscribe req_id s)) = None
   \<and> (watch_task s = None \<longrightarrow>
        handle_unsubscribe req_id s
          = (None, write_result req_id (JObj [(''status'', JStr ''unsubscribed'')]) s))
   \<and> (watch_task s = Some t \<and> t_status t = Running \<longrightarrow>
        handle_unsubscribe req_id s
          = (None, write_result req_id (JObj [(''status'', JStr ''unsubscribed'')])
                     (s\<lparr>watch_task := None,
                        released := released s @ [t\<lparr>t_status := Cancelled\<rparr>]\<rparr>)))
   \<and> (watch_task s = Some t \<and> t_status t = Failed exc \<longrightarrow>
        handle_unsubscribe req_id s
          = (Some exc, s\<lparr>watch_task := None, released := released s @ [t]\<rparr>))"
  by (simp add: handle_unsubscribe_def stop_watch_def Let_def
        split: option.splits task_status.splits)

theorem unsubscribe_outcomes_witness:
  "handle_unsubscribe (JInt 1) initial
     = (None, initial\<lparr>written := [result_response 1 (JObj [(''status'', JStr ''unsubscribed'')])]\<rparr>)
   \<and> handle_unsubscribe (JInt 2)
       (initial\<lparr>watch_task := Some (example_task ''ws://gateway'' Running)\<rparr>)
     = (None, initial\<lparr>released := [example_task ''ws://gateway'' Cancelled],
                      written := [result_response 2 (JObj [(''status'', JStr ''unsubscribed'')])]\<rparr>)
   \<and> handle_unsubscribe (JInt 3)
       (initial\<lparr>watch_task := Some (example_task ''ws://gateway'' (Failed (ValueError ''x'')))\<rparr>)
     = (Some (ValueError ''x''),
        initial\<lparr>released := [example_task ''ws://gateway'' (Failed (ValueError ''x''))]\<rparr>)"
  using unsubscribe_outcomes [of "JInt 1" initial]
    unsubscribe_outcomes [of "JInt 2"
       "initial\<lparr>watch_task := Some (example_task ''ws://gateway'' Running)\<rparr>"
       "example_task ''ws://gateway'' Running"]
    unsubscribe_outcomes [of "JInt 3"
       "initial\<lparr>watch_task := Some (example_task ''ws://gateway'' (Failed (ValueError ''x'')))\<rparr>"
       "example_task ''ws://gateway'' (Failed (ValueError ''x''))" "ValueError ''x''"]
  by (simp add: initial_def example_task_def result_response_def write_result_def write_json_def)


lemma released_done_write_result [simp]:
  "released_done (write_result i x s) = released_done s"
  by (simp add: released_done_def)

lemma released_done_write_error [simp]:
  "released_done (write_error i c m s) = released_done s"
  by (simp add: released_done_def)

lemma released_done_handle [simp]:
  "released_done (s\<lparr>watch_task := w\<rparr>) = released_done s"
  by (simp add: released_done_def)
















end
